theory Spec2Isabelle
  imports Main "HOL-Library.AList" "HOL-Library.Word"
begin

section \<open>Values shared by the backend and the scanner client\<close>

text \<open>
  JSON values, as they travel in HTTP bodies and socket payloads. Numbers are kept as
  integers: the code only stores the constant \<open>SESSION_EXPIRY\<close> in one and tests one for
  truthiness. An object is the list of its own properties, each key once.
\<close>

datatype json =
    JNull
  | JBool bool
  | JNum int
  | JStr string
  | JArr "json list"
  | JObj "(string \<times> json) list"

section \<open>Session registry: \<open>backend/controllers/desk.controller.ts\<close>\<close>

text \<open>
  \<open>interface DeskSession\<close>. Timestamps are \<open>Date.now()\<close> readings in milliseconds,
  whole numbers far below \<open>2^53\<close>, so \<open>int\<close> arithmetic is what the code computes.
\<close>

record DeskSession =
  deskId :: string
  signature :: string
  createdAt :: int
  expiresAt :: int

text \<open>
  \<open>const deskSessions = new Map<string, DeskSession>()\<close>: an insertion-ordered table with
  one entry per key. \<open>Map.get\<close> is \<^const>\<open>map_of\<close>, \<open>Map.set\<close> is \<^const>\<open>AList.update\<close> (an
  existing key keeps its place, a new one goes last) and \<open>Map.delete\<close> is
  \<^const>\<open>AList.delete\<close>.
\<close>

type_synonym deskSessions = "(string \<times> DeskSession) list"

definition SESSION_EXPIRY :: int where
  "SESSION_EXPIRY = 30 * 60 * 1000"

text \<open>
  The \<open>setInterval\<close> callback (registered with a period of 60000 ms): one pass over the
  entries of the table, deleting each entry whose \<open>expiresAt\<close> lies before the clock
  reading \<open>now\<close>. The loop runs over the entries present when it starts; it only ever
  deletes the entry it is visiting, so the live iterator of the source visits the same ones.
\<close>

fun sweep_loop :: "int \<Rightarrow> (string \<times> DeskSession) list \<Rightarrow> deskSessions \<Rightarrow> deskSessions" where
  "sweep_loop now [] tbl = tbl"
| "sweep_loop now ((dId, session) # rest) tbl =
     sweep_loop now rest (if expiresAt session < now then AList.delete dId tbl else tbl)"

definition sweep :: "int \<Rightarrow> deskSessions \<Rightarrow> deskSessions" where
  "sweep now tbl = sweep_loop now tbl tbl"

text \<open>
  \<open>crypto.randomBytes(n)\<close> draws \<open>n\<close> bytes from the system's random source, here the
  list of bytes the source still has to give; it throws when the source cannot deliver
  (\<open>Inl\<close> carries the error's message). \<open>.toString('hex')\<close> writes each byte as two
  lower-case hexadecimal digits.
\<close>

definition randomBytes :: "nat \<Rightarrow> 8 word list \<Rightarrow> string + (8 word list \<times> 8 word list)" where
  "randomBytes n src =
     (if length src < n then Inl ''random source failure''
      else Inr (take n src, drop n src))"

definition hexDigit :: "nat \<Rightarrow> char" where
  "hexDigit d = ''0123456789abcdef'' ! (d mod 16)"

definition toHexByte :: "8 word \<Rightarrow> string" where
  "toHexByte b = [hexDigit (unat b div 16), hexDigit (unat b mod 16)]"

definition toHex :: "8 word list \<Rightarrow> string" where
  "toHex bs = concat (map toHexByte bs)"

text \<open>An HTTP response: \<open>res.status(code).json(body)\<close>.\<close>

record response =
  status :: nat
  body :: json

definition error500 :: "string \<Rightarrow> string \<Rightarrow> response" where
  "error500 message err =
     \<lparr>status = 500,
      body = JObj [(''success'', JBool False), (''message'', JStr message), (''error'', JStr err)]\<rparr>"

text \<open>
  \<open>createDeskSession\<close>. Inputs: the random source and the clock reading; the state is the
  session table. A throw inside the \<open>try\<close> block leaves the table as it was and answers 500.
  The \<open>logger\<close> calls write to the log only and are not part of the model.
\<close>

definition createDeskSession ::
  "8 word list \<Rightarrow> int \<Rightarrow> deskSessions \<Rightarrow> response \<times> deskSessions" where
  "createDeskSession src now tbl =
     (case randomBytes 16 src of
        Inl err \<Rightarrow> (error500 ''Error creating desk session'' err, tbl)
      | Inr (idBytes, src1) \<Rightarrow>
          (case randomBytes 32 src1 of
             Inl err \<Rightarrow> (error500 ''Error creating desk session'' err, tbl)
           | Inr (sigBytes, src2) \<Rightarrow>
               let dId = toHex idBytes;
                   sig = toHex sigBytes;
                   session = \<lparr>deskId = dId, signature = sig,
                              createdAt = now, expiresAt = now + SESSION_EXPIRY\<rparr>
               in (\<lparr>status = 200,
                    body = JObj [(''success'', JBool True),
                                 (''data'', JObj [(''deskId'', JStr dId),
                                                  (''signature'', JStr sig),
                                                  (''expiresIn'', JNum SESSION_EXPIRY)])]\<rparr>,
                   AList.update dId session tbl)))"

text \<open>
  \<open>validateDeskSession(deskId, signature)\<close>: the result and the table it leaves behind.
  \<open>now\<close> is the reading of \<open>Date.now()\<close> in the expiry test.
\<close>

definition validateDeskSession ::
  "int \<Rightarrow> string \<Rightarrow> string \<Rightarrow> deskSessions \<Rightarrow> bool \<times> deskSessions" where
  "validateDeskSession now dId sig tbl =
     (case map_of tbl dId of
        None \<Rightarrow> (False, tbl)
      | Some session \<Rightarrow>
          if expiresAt session < now then (False, AList.delete dId tbl)
          else (signature session = sig, tbl))"

text \<open>
  \<open>refreshDeskSession\<close>, for a request whose body holds the strings \<open>deskId\<close> and
  \<open>signature\<close>. The clock is read twice: \<open>now1\<close> inside the validation, \<open>now2\<close> when the new
  expiry is written. With such a body no statement of the \<open>try\<close> block throws.
\<close>

definition unauthorized :: response where
  "unauthorized =
     \<lparr>status = 401,
      body = JObj [(''success'', JBool False),
                   (''message'', JStr ''Invalid or expired desk session'')]\<rparr>"

definition refreshed :: response where
  "refreshed =
     \<lparr>status = 200,
      body = JObj [(''success'', JBool True), (''message'', JStr ''Session refreshed''),
                   (''data'', JObj [(''expiresIn'', JNum SESSION_EXPIRY)])]\<rparr>"

definition refreshDeskSession ::
  "int \<Rightarrow> int \<Rightarrow> string \<Rightarrow> string \<Rightarrow> deskSessions \<Rightarrow> response \<times> deskSessions" where
  "refreshDeskSession now1 now2 dId sig tbl =
     (case validateDeskSession now1 dId sig tbl of
        (False, tbl1) \<Rightarrow> (unauthorized, tbl1)
      | (True, tbl1) \<Rightarrow>
          (refreshed,
           case map_of tbl1 dId of
             None \<Rightarrow> tbl1
           | Some session \<Rightarrow>
               AList.update dId (session\<lparr>expiresAt := now2 + SESSION_EXPIRY\<rparr>) tbl1))"

section \<open>Scanner client: \<open>frontend/src/pages/Scanner.tsx\<close>\<close>

text \<open>
  The component's state: the \<open>useState\<close> cells that drive rendering and the \<open>useRef\<close>
  cells the handlers read. \<open>socketRef\<close> is \<open>None\<close> for \<open>null\<close>; a socket is the list of the
  messages emitted on it so far, oldest first. \<open>scannerRef\<close> is \<open>None\<close> for \<open>null\<close>, else
  it holds an \<open>Html5Qrcode\<close> instance, named by the number of instances created before
  it. \<open>debugLogs\<close> and the toasts are display only, no handler reads them, and they are
  left out. Strings are lists of 8-bit code units.

  The last four fields are the camera library as the page drives it: \<open>qrCreated\<close> counts
  the instances created, \<open>startPending\<close> and \<open>stopPending\<close> list the instances with a
  \<open>start\<close> or \<open>stop\<close> promise that an \<open>async\<close> function of the page still awaits (one
  entry per awaiting call), and \<open>cameraOn\<close> is the set of instances whose camera runs.
\<close>

record scanner_state =
  connected :: bool
  scanning :: bool
  paused :: bool
  lastScanned :: "string option"
  manualInput :: string
  socketRef :: "(string \<times> json) list option"
  scannerRef :: "nat option"
  connectedRef :: bool
  pausedRef :: bool
  lastScanTsRef :: int
  qrCreated :: nat
  startPending :: "nat list"
  stopPending :: "nat list"
  cameraOn :: "nat set"

definition initial :: scanner_state where
  "initial =
     \<lparr>connected = False, scanning = False, paused = False, lastScanned = None,
      manualInput = [], socketRef = None, scannerRef = None,
      connectedRef = False, pausedRef = False, lastScanTsRef = 0,
      qrCreated = 0, startPending = [], stopPending = [], cameraOn = {}\<rparr>"

definition emit :: "string \<Rightarrow> json \<Rightarrow> (string \<times> json) list \<Rightarrow> (string \<times> json) list" where
  "emit ev payload sock = sock @ [(ev, payload)]"

text \<open>
  The body of the \<open>useEffect\<close>: with a missing or empty \<open>deskId\<close> or \<open>signature\<close> query
  parameter no socket is created; otherwise the socket is created and \<open>join-scanner\<close> is
  emitted on it.
\<close>

definition socket_setup :: "string option \<Rightarrow> string option \<Rightarrow> scanner_state \<Rightarrow> scanner_state" where
  "socket_setup dId sig s =
     (case (dId, sig) of
        (Some d, Some g) \<Rightarrow>
          if d = [] \<or> g = [] then s
          else s\<lparr>socketRef :=
                    Some (emit ''join-scanner''
                            (JObj [(''deskId'', JStr d), (''signature'', JStr g)]) [])\<rparr>
      | _ \<Rightarrow> s)"

text \<open>
  \<open>startScanner\<close> is \<open>async\<close>. The call itself runs up to the \<open>await\<close>: it returns at once
  when an instance is held, else it creates an instance, stores it in \<open>scannerRef\<close> and
  calls \<open>qr.start\<close>. The rest runs when that promise settles, as an event of its own
  (\<open>start_settled\<close>): resolved, the camera of that instance runs and \<open>setScanning(true)\<close>
  is called; rejected, only a toast is shown, and \<open>scannerRef\<close> is left as it is.
\<close>

definition startScanner :: "scanner_state \<Rightarrow> scanner_state" where
  "startScanner s =
     (case scannerRef s of
        Some qr \<Rightarrow> s
      | None \<Rightarrow>
          s\<lparr>scannerRef := Some (qrCreated s),
            qrCreated := Suc (qrCreated s),
            startPending := startPending s @ [qrCreated s]\<rparr>)"

definition start_settled :: "nat \<Rightarrow> bool \<Rightarrow> scanner_state \<Rightarrow> scanner_state" where
  "start_settled qr resolved s =
     (if qr \<notin> set (startPending s) then s
      else if resolved then
        s\<lparr>startPending := remove1 qr (startPending s),
          cameraOn := insert qr (cameraOn s),
          scanning := True\<rparr>
      else s\<lparr>startPending := remove1 qr (startPending s)\<rparr>)"

text \<open>
  \<open>stopScanner\<close> is \<open>async\<close> as well. The call itself returns at once when no instance is
  held, else it calls \<open>stop\<close> on the instance held and awaits it. The rest runs when that
  promise settles (\<open>stop_settled\<close>): resolved, the camera of that instance is off;
  resolved or rejected (every error of \<open>stop\<close> and \<open>clear\<close> is swallowed),
  \<open>scannerRef.current\<close>, whatever it holds by then, is set to \<open>null\<close> and
  \<open>setScanning(false)\<close> is called. A \<open>stop\<close> that throws at once is a promise that
  settles before any other event.
\<close>

definition stopScanner :: "scanner_state \<Rightarrow> scanner_state" where
  "stopScanner s =
     (case scannerRef s of
        None \<Rightarrow> s
      | Some qr \<Rightarrow> s\<lparr>stopPending := stopPending s @ [qr]\<rparr>)"

definition stop_settled :: "nat \<Rightarrow> bool \<Rightarrow> scanner_state \<Rightarrow> scanner_state" where
  "stop_settled qr resolved s =
     (if qr \<notin> set (stopPending s) then s
      else
        s\<lparr>stopPending := remove1 qr (stopPending s),
          cameraOn := (if resolved then cameraOn s - {qr} else cameraOn s),
          scannerRef := None,
          scanning := False\<rparr>)"



definition on_resume_scanning :: "scanner_state \<Rightarrow> scanner_state" where
  "on_resume_scanning s =
     startScanner (s\<lparr>pausedRef := False, paused := False\<rparr>)"


text \<open>
  \<open>String.prototype.trim\<close> on 8-bit code units: tab, line feed, vertical tab, form feed,
  carriage return, space and no-break space are stripped from both ends.
\<close>

definition is_space :: "char \<Rightarrow> bool" where
  "is_space c = (of_char c \<in> {9, 10, 11, 12, 13, 32, 160 :: nat})"

definition trim :: "string \<Rightarrow> string" where
  "trim t = rev (dropWhile is_space (rev (dropWhile is_space t)))"

text \<open>
  What \<open>onScanSuccess\<close> does with the value of \<open>JSON.parse\<close>: reading a property of
  a value that is not an object gives \<open>undefined\<close> (\<open>None\<close>); \<open>!v\<close> is true of \<open>undefined\<close>,
  \<open>null\<close>, \<open>false\<close>, \<open>0\<close> and the empty string.
\<close>

fun property :: "json \<Rightarrow> string \<Rightarrow> json option" where
  "property (JObj kvs) k = map_of kvs k"
| "property v k = None"

fun truthy :: "json option \<Rightarrow> bool" where
  "truthy None = False"
| "truthy (Some JNull) = False"
| "truthy (Some (JBool b)) = b"
| "truthy (Some (JNum n)) = (n \<noteq> 0)"
| "truthy (Some (JStr t)) = (t \<noteq> [])"
| "truthy (Some (JArr vs)) = True"
| "truthy (Some (JObj kvs)) = True"

text \<open>
  \<open>onScanSuccess(decodedText)\<close>, called by the camera library at the clock reading \<open>now\<close>.
  \<open>JSON_parse\<close> is the built-in parser, \<open>None\<close> when it throws a \<open>SyntaxError\<close>. Reading
  \<open>parsed.type\<close> of \<open>null\<close> throws as well, and both throws end in the \<open>catch\<close> branch
  that sends the trimmed text. An \<open>undefined\<close> \<open>uniqueId\<close> is falsy, so it takes the
  "Invalid participant QR" return like every other falsy one.
\<close>

definition onScanSuccess ::
  "(string \<Rightarrow> json option) \<Rightarrow> int \<Rightarrow> string \<Rightarrow> scanner_state \<Rightarrow> scanner_state" where
  "onScanSuccess JSON_parse now decodedText s =
     (if now - lastScanTsRef s < 1500 then s
      else
        let s1 = s\<lparr>lastScanTsRef := now\<rparr> in
        if pausedRef s1 then s1
        else if \<not> connectedRef s1 then s1
        else
          (case socketRef s1 of
             None \<Rightarrow> s1
           | Some sock \<Rightarrow>
               let plain = s1\<lparr>socketRef :=
                     Some (emit ''scan-participant''
                             (JObj [(''uniqueId'', JStr (trim decodedText))]) sock)\<rparr>
               in
               (case JSON_parse decodedText of
                  None \<Rightarrow> plain
                | Some JNull \<Rightarrow> plain
                | Some parsed \<Rightarrow>
                    (case property parsed ''uniqueId'' of
                       None \<Rightarrow> s1
                     | Some uniqueId \<Rightarrow>
                         if property parsed ''type'' \<noteq> Some (JStr ''PARTICIPANT'')
                            \<or> \<not> truthy (Some uniqueId)
                         then s1
                         else s1\<lparr>socketRef :=
                                Some (emit ''scan-participant''
                                        (JObj [(''uniqueId'', uniqueId)]) sock)\<rparr>))))"

text \<open>The \<open>onClick\<close> of the Send button and the \<open>onChange\<close> of the manual input.\<close>

definition send_click :: "scanner_state \<Rightarrow> scanner_state" where
  "send_click s =
     (if trim (manualInput s) = [] then s
      else
        (case socketRef s of
           None \<Rightarrow> s
         | Some sock \<Rightarrow>
             s\<lparr>socketRef :=
                 Some (emit ''scan-participant''
                         (JObj [(''uniqueId'', JStr (trim (manualInput s)))]) sock)\<rparr>)
        \<lparr>manualInput := []\<rparr>)"

definition manual_change :: "string \<Rightarrow> scanner_state \<Rightarrow> scanner_state" where
  "manual_change v s = s\<lparr>manualInput := v\<rparr>"






section \<open>Scan handshake of the relay\<close>

text \<open>
  The relay's code, \<open>backend/utils/socket\<close>, is not part of the verified sources; only
  its caller \<open>initializeSocket(httpServer)\<close> and its client, the scanner page, are. What
  follows is written from sections 4.2 and 4.3 of the specification.
\<close>

text \<open>
  Modelled from the spec: the handshake state of a session, one of idle, awaiting-ack and
  paused (section 4.3); the relay's own type is missing.
\<close>

datatype hs_state = Idle | AwaitingAck | Paused

text \<open>
  Modelled from the spec: the messages that reach the relay for one session (section
  4.2), whose handlers are missing: \<open>scan-participant\<close> from the scanner connection
  \<open>conn\<close> with the payload's \<open>uniqueId\<close>, the desk's \<open>ack-scan\<close> and \<open>resume\<close>, and the
  desk connection dropping.
\<close>

datatype relay_in =
    ScanParticipant nat json
  | AckScan
  | Resume
  | DeskDisconnect

text \<open>
  Modelled from the spec: the messages the missing relay sends (section 4.2):
  \<open>scan-received\<close> to the desk, the other three to the scanners of the session.
\<close>

datatype relay_out =
    ScanReceived string
  | ScanAcknowledged
  | ResumeScanning
  | DeskDisconnected

text \<open>
  Modelled from the spec: the relay's check of a scanned id, missing from the sources.
  An id is accepted when it is a non-empty string ("validate pid non-empty"; "empty-string
  or non-string scan payloads never cause a state transition").
\<close>

fun valid_pid :: "json \<Rightarrow> string option" where
  "valid_pid (JStr pid) = (if pid = [] then None else Some pid)"
| "valid_pid v = None"

text \<open>
  Modelled from the spec: the relay's handshake transition function, which is missing
  from the sources. Each equation but the last is one transition of section 4.3, with the
  forward section 4.2 attaches to it. The pairs of state and message that section 4.3
  does not list (\<open>ack-scan\<close> outside awaiting-ack, \<open>resume\<close> outside paused) are left to
  the parameter \<open>other\<close>, so that what is proved holds however an implementation
  settles them.
\<close>

fun handshake ::
  "(hs_state \<Rightarrow> relay_in \<Rightarrow> hs_state \<times> relay_out list) \<Rightarrow>
     hs_state \<Rightarrow> relay_in \<Rightarrow> hs_state \<times> relay_out list" where
  "handshake other Idle (ScanParticipant conn pid) =
     (case valid_pid pid of
        Some p \<Rightarrow> (AwaitingAck, [ScanReceived p])
      | None \<Rightarrow> (Idle, []))"
| "handshake other AwaitingAck (ScanParticipant conn pid) = (AwaitingAck, [])"
| "handshake other AwaitingAck AckScan = (Paused, [ScanAcknowledged])"
| "handshake other Paused Resume = (Idle, [ResumeScanning])"
| "handshake other Paused (ScanParticipant conn pid) = (Paused, [])"
| "handshake other st DeskDisconnect = (st, [DeskDisconnected])"
| "handshake other st msg = other st msg"

text \<open>
  Modelled from the spec: the missing relay handling the messages of one session one after
  the other, in the order they arrive (section 5), and collecting what it sends.
\<close>

fun relay_run ::
  "(hs_state \<Rightarrow> relay_in \<Rightarrow> hs_state \<times> relay_out list) \<Rightarrow>
     hs_state \<Rightarrow> relay_in list \<Rightarrow> hs_state \<times> relay_out list" where
  "relay_run other st [] = (st, [])"
| "relay_run other st (msg # msgs) =
     (case handshake other st msg of
        (st1, out1) \<Rightarrow>
          (case relay_run other st1 msgs of
             (st2, out2) \<Rightarrow> (st2, out1 @ out2)))"

fun is_scan :: "relay_in \<Rightarrow> bool" where
  "is_scan (ScanParticipant conn pid) = True"
| "is_scan msg = False"

fun is_scan_received :: "relay_out \<Rightarrow> bool" where
  "is_scan_received (ScanReceived p) = True"
| "is_scan_received out = False"

text \<open>
  Modelled from the spec: two ways the missing relay may settle the unlisted pairs. The
  first ignores the message; the second obeys section 4.2 to the letter (\<open>ack-scan\<close>
  always pauses, \<open>resume\<close> always returns to idle).
\<close>

definition ignore_other :: "hs_state \<Rightarrow> relay_in \<Rightarrow> hs_state \<times> relay_out list" where
  "ignore_other st msg = (st, [])"

fun eager_other :: "hs_state \<Rightarrow> relay_in \<Rightarrow> hs_state \<times> relay_out list" where
  "eager_other st AckScan = (Paused, [ScanAcknowledged])"
| "eager_other st Resume = (Idle, [ResumeScanning])"
| "eager_other st msg = (st, [])"

section \<open>Sample data\<close>

definition session_old :: DeskSession where
  "session_old = \<lparr>deskId = ''d1'', signature = ''s1'', createdAt = 0, expiresAt = 1800000\<rparr>"

definition session_new :: DeskSession where
  "session_new = \<lparr>deskId = ''d2'', signature = ''s2'', createdAt = 600000, expiresAt = 2400000\<rparr>"

definition sample_table :: deskSessions where
  "sample_table = [(''d1'', session_old), (''d2'', session_new)]"

definition sample_source :: "8 word list" where
  "sample_source = map of_nat [0 ..< 48]"

definition no_parse :: "string \<Rightarrow> json option" where
  "no_parse t = None"

definition live_scanner :: scanner_state where
  "live_scanner =
     \<lparr>connected = True, scanning = True, paused = False, lastScanned = None,
      manualInput = '' P7 '', socketRef = Some [], scannerRef = Some 0,
      connectedRef = True, pausedRef = False, lastScanTsRef = 0,
      qrCreated = 1, startPending = [], stopPending = [], cameraOn = {0}\<rparr>"

section \<open>The session table as a map\<close>

lemma map_of_delete_key:
  "map_of (AList.delete k tbl) k' = (if k' = k then None else map_of tbl k')"
  by (simp add: AList.delete_conv')

lemma map_of_update_key:
  "map_of (AList.update k v tbl) k' = (if k' = k then Some v else map_of tbl k')"
  by (simp add: AList.update_conv')

lemma keys_update_present:
  "map_of tbl k = Some v \<Longrightarrow> map fst (AList.update k v' tbl) = map fst tbl"
  by (induction tbl) (auto split: if_splits)

lemma validate_table_shrinks:
  "map_of (snd (validateDeskSession now d sg tbl)) k = Some s \<Longrightarrow> map_of tbl k = Some s"
  by (auto simp: validateDeskSession_def map_of_delete_key split: option.splits if_splits)

lemma validate_other_keys:
  "k \<noteq> d \<Longrightarrow> map_of (snd (validateDeskSession now d sg tbl)) k = map_of tbl k"
  by (auto simp: validateDeskSession_def map_of_delete_key split: option.splits if_splits)

text \<open>The handler is a case split on the validation's result.\<close>

lemma refresh_cases:
  "refreshDeskSession now1 now2 d sg tbl =
     (if fst (validateDeskSession now1 d sg tbl)
      then (refreshed,
            case map_of tbl d of
              None \<Rightarrow> tbl
            | Some s \<Rightarrow> AList.update d (s\<lparr>expiresAt := now2 + SESSION_EXPIRY\<rparr>) tbl)
      else (unauthorized, snd (validateDeskSession now1 d sg tbl)))"
  by (auto simp: refreshDeskSession_def validateDeskSession_def split: option.splits)

section \<open>Validation\<close>

text \<open>
  Claim C1. \<open>validateDeskSession(deskId, signature)\<close> returns false when the table has no
  session under \<open>deskId\<close>; returns false and deletes the session when its \<open>expiresAt\<close> is
  earlier than the clock reading, whatever the signature, after which the id is unknown
  to every later call; returns false, leaving the table alone, when the session is
  unexpired and the signature differs from the stored one; and returns true, leaving the
  table alone, otherwise.
\<close>

theorem validateDeskSession_spec:
  "(map_of tbl d = None \<longrightarrow> validateDeskSession now d sg tbl = (False, tbl))
   \<and> (\<forall>s. map_of tbl d = Some s \<and> expiresAt s < now \<longrightarrow>
          validateDeskSession now d sg tbl = (False, AList.delete d tbl)
          \<and> (\<forall>k. map_of (snd (validateDeskSession now d sg tbl)) k =
                   (if k = d then None else map_of tbl k))
          \<and> (\<forall>now' sg'.
                \<not> fst (validateDeskSession now' d sg' (snd (validateDeskSession now d sg tbl)))))
   \<and> (\<forall>s. map_of tbl d = Some s \<and> \<not> expiresAt s < now \<and> signature s \<noteq> sg \<longrightarrow>
          validateDeskSession now d sg tbl = (False, tbl))
   \<and> (\<forall>s. map_of tbl d = Some s \<and> \<not> expiresAt s < now \<and> signature s = sg \<longrightarrow>
          validateDeskSession now d sg tbl = (True, tbl))"
  by (auto simp: validateDeskSession_def map_of_delete_key)

theorem validateDeskSession_spec_witness:
  "validateDeskSession 1800001 ''zz'' ''s1'' sample_table = (False, sample_table)
   \<and> validateDeskSession 1800001 ''d1'' ''s1'' sample_table = (False, [(''d2'', session_new)])
   \<and> validateDeskSession 1800001 ''d2'' ''s1'' sample_table = (False, sample_table)
   \<and> validateDeskSession 1800001 ''d2'' ''s2'' sample_table = (True, sample_table)
   \<and> validateDeskSession 1800000 ''d1'' ''s1'' sample_table = (True, sample_table)"
  using validateDeskSession_spec [of sample_table "''zz''" 1800001 "''s1''"]
        validateDeskSession_spec [of sample_table "''d1''" 1800001 "''s1''"]
        validateDeskSession_spec [of sample_table "''d2''" 1800001 "''s1''"]
        validateDeskSession_spec [of sample_table "''d2''" 1800001 "''s2''"]
        validateDeskSession_spec [of sample_table "''d1''" 1800000 "''s1''"]
  by (simp add: sample_table_def session_old_def session_new_def AList.delete_eq)

section \<open>Refresh\<close>

text \<open>
  Claim C3. A refresh that succeeds (the response is 200) finds a session under \<open>deskId\<close>
  whose signature is the one presented, and the table it leaves is the old one with that
  session's \<open>expiresAt\<close> set to the clock reading plus 30 minutes: \<open>deskId\<close>, \<open>signature\<close>
  and \<open>createdAt\<close> of the session are as before, every other key maps to what it did, and
  the keys and their order are the same.
\<close>

theorem refresh_changes_only_expiresAt:
  "status (fst (refreshDeskSession now1 now2 d sg tbl)) = 200 \<longrightarrow>
     (\<exists>s. map_of tbl d = Some s
        \<and> signature s = sg
        \<and> snd (refreshDeskSession now1 now2 d sg tbl) =
            AList.update d (s\<lparr>expiresAt := now2 + 30 * 60 * 1000\<rparr>) tbl
        \<and> map_of (snd (refreshDeskSession now1 now2 d sg tbl)) d =
            Some \<lparr>deskId = deskId s, signature = signature s, createdAt = createdAt s,
                  expiresAt = now2 + 30 * 60 * 1000\<rparr>
        \<and> (\<forall>k. k \<noteq> d \<longrightarrow>
              map_of (snd (refreshDeskSession now1 now2 d sg tbl)) k = map_of tbl k)
        \<and> map fst (snd (refreshDeskSession now1 now2 d sg tbl)) = map fst tbl)"
  by (auto simp: refreshDeskSession_def validateDeskSession_def unauthorized_def refreshed_def
        SESSION_EXPIRY_def map_of_update_key keys_update_present
      split: option.splits if_splits bool.splits)

theorem refresh_changes_only_expiresAt_witness:
  "status (fst (refreshDeskSession 1000000 1000005 ''d1'' ''s1'' sample_table)) = 200
   \<and> snd (refreshDeskSession 1000000 1000005 ''d1'' ''s1'' sample_table) =
       [(''d1'', \<lparr>deskId = ''d1'', signature = ''s1'', createdAt = 0, expiresAt = 2800005\<rparr>),
        (''d2'', session_new)]"
proof -
  have ok: "status (fst (refreshDeskSession 1000000 1000005 ''d1'' ''s1'' sample_table)) = 200"
    by (simp add: refreshDeskSession_def validateDeskSession_def refreshed_def
          sample_table_def session_old_def)
  from refresh_changes_only_expiresAt [of 1000000 1000005 "''d1''" "''s1''" sample_table] ok
  obtain s where s: "map_of sample_table ''d1'' = Some s"
    and t: "snd (refreshDeskSession 1000000 1000005 ''d1'' ''s1'' sample_table) =
            AList.update ''d1'' (s\<lparr>expiresAt := 1000005 + 30 * 60 * 1000\<rparr>) sample_table"
    by blast
  from s have "s = session_old"
    by (simp add: sample_table_def)
  with t have "snd (refreshDeskSession 1000000 1000005 ''d1'' ''s1'' sample_table) =
       [(''d1'', \<lparr>deskId = ''d1'', signature = ''s1'', createdAt = 0, expiresAt = 2800005\<rparr>),
        (''d2'', session_new)]"
    by (simp add: sample_table_def session_old_def)
  with ok show ?thesis by simp
qed

text \<open>
  Claim C4. For a refresh request with body \<open>{deskId, signature}\<close>: when
  \<open>validateDeskSession\<close> returns true the response is 200 and carries \<open>expiresIn\<close>
  (1800000 ms); when it returns false the response is 401 and the table is exactly the
  one the validation left, so nothing but the validation's own eviction of \<open>deskId\<close> has
  happened: no other key has changed and every session still stored is stored as before,
  its \<open>expiresAt\<close> included.
\<close>

theorem refresh_endpoint_status:
  "(fst (validateDeskSession now1 d sg tbl) \<longrightarrow>
      fst (refreshDeskSession now1 now2 d sg tbl) =
        \<lparr>status = 200,
         body = JObj [(''success'', JBool True), (''message'', JStr ''Session refreshed''),
                      (''data'', JObj [(''expiresIn'', JNum 1800000)])]\<rparr>)
   \<and> (\<not> fst (validateDeskSession now1 d sg tbl) \<longrightarrow>
        status (fst (refreshDeskSession now1 now2 d sg tbl)) = 401
        \<and> snd (refreshDeskSession now1 now2 d sg tbl) = snd (validateDeskSession now1 d sg tbl)
        \<and> (\<forall>k s. map_of (snd (refreshDeskSession now1 now2 d sg tbl)) k = Some s \<longrightarrow>
                   map_of tbl k = Some s)
        \<and> (\<forall>k. k \<noteq> d \<longrightarrow>
              map_of (snd (refreshDeskSession now1 now2 d sg tbl)) k = map_of tbl k))"
  by (auto simp: refresh_cases refreshed_def unauthorized_def SESSION_EXPIRY_def
        validate_other_keys dest: validate_table_shrinks)

theorem refresh_endpoint_status_witness:
  "fst (validateDeskSession 1000000 ''d1'' ''s1'' sample_table)
   \<and> status (fst (refreshDeskSession 1000000 1000005 ''d1'' ''s1'' sample_table)) = 200
   \<and> \<not> fst (validateDeskSession 1000000 ''d1'' ''bad'' sample_table)
   \<and> status (fst (refreshDeskSession 1000000 1000005 ''d1'' ''bad'' sample_table)) = 401
   \<and> snd (refreshDeskSession 1000000 1000005 ''d1'' ''bad'' sample_table) = sample_table
   \<and> \<not> fst (validateDeskSession 1800001 ''d1'' ''s1'' sample_table)
   \<and> status (fst (refreshDeskSession 1800001 1800005 ''d1'' ''s1'' sample_table)) = 401
   \<and> snd (refreshDeskSession 1800001 1800005 ''d1'' ''s1'' sample_table) = [(''d2'', session_new)]"
proof -
  have ok: "fst (validateDeskSession 1000000 ''d1'' ''s1'' sample_table)"
    by (simp add: validateDeskSession_def sample_table_def session_old_def)
  have bad: "validateDeskSession 1000000 ''d1'' ''bad'' sample_table = (False, sample_table)"
    by (simp add: validateDeskSession_def sample_table_def session_old_def)
  have late: "validateDeskSession 1800001 ''d1'' ''s1'' sample_table = (False, [(''d2'', session_new)])"
    by (simp add: validateDeskSession_def sample_table_def session_old_def AList.delete_eq)
  note t = refresh_endpoint_status
  from t [of 1000000 "''d1''" "''s1''" sample_table 1000005] ok
  have 1: "status (fst (refreshDeskSession 1000000 1000005 ''d1'' ''s1'' sample_table)) = 200"
    by simp
  from t [of 1000000 "''d1''" "''bad''" sample_table 1000005] bad
  have 2: "status (fst (refreshDeskSession 1000000 1000005 ''d1'' ''bad'' sample_table)) = 401
           \<and> snd (refreshDeskSession 1000000 1000005 ''d1'' ''bad'' sample_table) = sample_table"
    by (simp only: fst_conv snd_conv not_False_eq_True simp_thms)
  from t [of 1800001 "''d1''" "''s1''" sample_table 1800005] late
  have 3: "status (fst (refreshDeskSession 1800001 1800005 ''d1'' ''s1'' sample_table)) = 401
           \<and> snd (refreshDeskSession 1800001 1800005 ''d1'' ''s1'' sample_table) = [(''d2'', session_new)]"
    by (simp only: fst_conv snd_conv not_False_eq_True simp_thms)
  from ok bad late 1 2 3 show ?thesis by simp
qed

text \<open>
  Claim C5. Two refresh requests that fail validation, for whatever reasons (no such
  \<open>deskId\<close>, session expired, signature mismatch), at whatever times and against whatever
  tables, get the same response: status 401 with the one generic body. The response
  does not depend on the cause of the failure.
\<close>

theorem refresh_failures_indistinguishable:
  "\<not> fst (validateDeskSession now1 d1 sg1 tbl1) \<and> \<not> fst (validateDeskSession now2 d2 sg2 tbl2) \<longrightarrow>
     fst (refreshDeskSession now1 now1' d1 sg1 tbl1) = fst (refreshDeskSession now2 now2' d2 sg2 tbl2)
     \<and> fst (refreshDeskSession now1 now1' d1 sg1 tbl1) =
         \<lparr>status = 401,
          body = JObj [(''success'', JBool False),
                       (''message'', JStr ''Invalid or expired desk session'')]\<rparr>"
  by (simp add: refresh_cases unauthorized_def)

theorem refresh_failures_indistinguishable_witness:
  "map_of sample_table ''zz'' = None
   \<and> map_of sample_table ''d1'' = Some session_old \<and> expiresAt session_old < 1800001
   \<and> map_of sample_table ''d2'' = Some session_new \<and> \<not> expiresAt session_new < 1800001
       \<and> signature session_new \<noteq> ''s1''
   \<and> fst (refreshDeskSession 1800001 1800002 ''zz'' ''s1'' sample_table)
       = fst (refreshDeskSession 1800001 1800002 ''d1'' ''s1'' sample_table)
   \<and> fst (refreshDeskSession 1800001 1800002 ''d1'' ''s1'' sample_table)
       = fst (refreshDeskSession 1800001 1800002 ''d2'' ''s1'' sample_table)"
proof -
  have absent: "\<not> fst (validateDeskSession 1800001 ''zz'' ''s1'' sample_table)"
    by (simp add: validateDeskSession_def sample_table_def)
  have expired: "\<not> fst (validateDeskSession 1800001 ''d1'' ''s1'' sample_table)"
    by (simp add: validateDeskSession_def sample_table_def session_old_def)
  have mismatch: "\<not> fst (validateDeskSession 1800001 ''d2'' ''s1'' sample_table)"
    by (simp add: validateDeskSession_def sample_table_def session_new_def)
  have 1: "fst (refreshDeskSession 1800001 1800002 ''zz'' ''s1'' sample_table)
       = fst (refreshDeskSession 1800001 1800002 ''d1'' ''s1'' sample_table)"
    using refresh_failures_indistinguishable
      [of 1800001 "''zz''" "''s1''" sample_table 1800001 "''d1''" "''s1''" sample_table
          1800002 1800002]
      absent expired by blast
  have 2: "fst (refreshDeskSession 1800001 1800002 ''d1'' ''s1'' sample_table)
       = fst (refreshDeskSession 1800001 1800002 ''d2'' ''s1'' sample_table)"
    using refresh_failures_indistinguishable
      [of 1800001 "''d1''" "''s1''" sample_table 1800001 "''d2''" "''s1''" sample_table
          1800002 1800002]
      expired mismatch by blast
  show ?thesis
    using 1 2 by (simp add: sample_table_def session_old_def session_new_def)
qed

section \<open>The periodic sweep\<close>

lemma sweep_loop_filter:
  "sweep_loop now es tbl =
     filter (\<lambda>(k, s). \<not> (\<exists>s'. (k, s') \<in> set es \<and> expiresAt s' < now)) tbl"
proof (induction es arbitrary: tbl)
  case Nil
  then show ?case by simp
next
  case (Cons e es)
  obtain k s where e: "e = (k, s)" by (cases e)
  show ?case
    unfolding e
    by (auto simp: Cons.IH AList.delete_eq intro!: filter_cong)
qed

lemma sweep_filter:
  assumes "distinct (map fst tbl)"
  shows "sweep now tbl = filter (\<lambda>(k, s). \<not> expiresAt s < now) tbl"
proof -
  have key: "\<And>k s s'. (k, s) \<in> set tbl \<Longrightarrow> (k, s') \<in> set tbl \<Longrightarrow> s' = s"
    using assms by (rule eq_key_imp_eq_value)
  show ?thesis
    unfolding sweep_def sweep_loop_filter
    by (rule filter_cong) (auto dest: key)
qed

lemma map_of_filter_distinct:
  "distinct (map fst tbl) \<Longrightarrow>
     map_of (filter (\<lambda>(k, s). P s) tbl) k =
       (case map_of tbl k of None \<Rightarrow> None | Some s \<Rightarrow> if P s then Some s else None)"
proof (induction tbl)
  case Nil
  then show ?case by simp
next
  case (Cons e tbl)
  obtain k' s' where e: "e = (k', s')" by (cases e)
  from Cons show ?case
    unfolding e
    by (auto split: option.splits simp: map_of_eq_None_iff image_iff dest!: map_of_SomeD)
qed

text \<open>
  Claim C7. One run of the sweep, on a table with one entry per key (as a \<open>Map\<close> has),
  removes exactly the entries whose \<open>expiresAt\<close> is earlier than the clock reading: what
  is left is the old table without them, in the old order, so every other entry is
  present and unmodified, and no entry left is expired.
\<close>

theorem sweep_removes_exactly_expired:
  assumes "distinct (map fst tbl)"
  shows "sweep now tbl = filter (\<lambda>(k, s). \<not> expiresAt s < now) tbl
         \<and> (\<forall>k. map_of (sweep now tbl) k =
               (case map_of tbl k of
                  None \<Rightarrow> None
                | Some s \<Rightarrow> if expiresAt s < now then None else Some s))
         \<and> (\<forall>(k, s) \<in> set (sweep now tbl). \<not> expiresAt s < now)
         \<and> distinct (map fst (sweep now tbl))"
proof -
  have f: "sweep now tbl = filter (\<lambda>(k, s). \<not> expiresAt s < now) tbl"
    by (rule sweep_filter [OF assms])
  have "map_of (sweep now tbl) k =
           (case map_of tbl k of
              None \<Rightarrow> None
            | Some s \<Rightarrow> if expiresAt s < now then None else Some s)" for k
    unfolding f using map_of_filter_distinct [OF assms, of "\<lambda>s. \<not> expiresAt s < now" k]
    by (simp split: option.splits)
  moreover have "\<forall>(k, s) \<in> set (sweep now tbl). \<not> expiresAt s < now"
    unfolding f by auto
  moreover have "distinct (map fst (sweep now tbl))"
    unfolding f using assms by (simp add: distinct_map_filter)
  ultimately show ?thesis using f by blast
qed

theorem sweep_removes_exactly_expired_witness:
  "distinct (map fst sample_table)
   \<and> sweep 1800001 sample_table = [(''d2'', session_new)]
   \<and> sweep 1800000 sample_table = sample_table
   \<and> sweep 2400001 sample_table = []"
proof -
  have d: "distinct (map fst sample_table)"
    by (simp add: sample_table_def)
  note t = sweep_removes_exactly_expired [OF d, THEN conjunct1]
  show ?thesis
    using d t [of 1800001] t [of 1800000] t [of 2400001]
    by (simp add: sample_table_def session_old_def session_new_def)
qed

section \<open>Session creation\<close>

text \<open>The hexadecimal encoding is two digits a byte, and loses nothing.\<close>

lemma hexDigit_inj: "hexDigit d = hexDigit d' \<Longrightarrow> d mod 16 = d' mod 16"
proof -
  have dist: "distinct ''0123456789abcdef''" by simp
  have len: "d mod 16 < length ''0123456789abcdef''" "d' mod 16 < length ''0123456789abcdef''"
    by simp_all
  assume "hexDigit d = hexDigit d'"
  then show ?thesis
    unfolding hexDigit_def using nth_eq_iff_index_eq [OF dist len] by blast
qed

lemma div_mod_16_eq: "(a::nat) div 16 = c div 16 \<Longrightarrow> a mod 16 = c mod 16 \<Longrightarrow> a = c"
  by (metis div_mult_mod_eq)

lemma byte_bound: "unat (b :: 8 word) < 256"
  using unsigned_less [of b, where ?'a = nat] by simp

lemma high_nibble: "(x::nat) < 256 \<Longrightarrow> x div 16 mod 16 = x div 16"
  by (rule mod_less) arith

lemma toHexByte_inj: "toHexByte b = toHexByte b' \<Longrightarrow> b = b'"
proof -
  assume h: "toHexByte b = toHexByte b'"
  from h have e: "hexDigit (unat b div 16) = hexDigit (unat b' div 16)"
      "hexDigit (unat b mod 16) = hexDigit (unat b' mod 16)"
    by (simp_all add: toHexByte_def)
  have "unat b div 16 mod 16 = unat b' div 16 mod 16"
    by (rule hexDigit_inj [OF e(1)])
  then have hi: "unat b div 16 = unat b' div 16"
    unfolding high_nibble [OF byte_bound] .
  have "unat b mod 16 mod 16 = unat b' mod 16 mod 16"
    by (rule hexDigit_inj [OF e(2)])
  then have lo: "unat b mod 16 = unat b' mod 16"
    by simp
  have "unat b = unat b'"
    by (rule div_mod_16_eq [OF hi lo])
  then show ?thesis
    by (rule word_unat_eq_iff [THEN iffD2])
qed

lemma length_toHex: "length (toHex bs) = 2 * length bs"
  by (induction bs) (simp_all add: toHex_def toHexByte_def)

lemma hexDigit_in: "hexDigit d \<in> set ''0123456789abcdef''"
  unfolding hexDigit_def by (rule nth_mem) simp

lemma set_toHex: "set (toHex bs) \<subseteq> set ''0123456789abcdef''"
proof (induction bs)
  case Nil
  show ?case by (simp add: toHex_def)
next
  case (Cons b bs)
  have "set (toHexByte b) \<subseteq> set ''0123456789abcdef''"
    unfolding toHexByte_def using hexDigit_in [of "unat b div 16"] hexDigit_in [of "unat b mod 16"]
    by (simp del: set_simps list.set add: list.set(2) [of "hexDigit _"] list.set(1))
  moreover have "toHex (b # bs) = toHexByte b @ toHex bs"
    by (simp add: toHex_def)
  ultimately show ?case
    using Cons.IH by (simp only: set_append Un_subset_iff simp_thms)
qed

lemma toHex_inj: "toHex bs = toHex bs' \<Longrightarrow> bs = bs'"
proof (induction bs arbitrary: bs')
  case Nil
  then show ?case
    by (cases bs') (simp_all add: toHex_def toHexByte_def)
next
  case (Cons b bs)
  show ?case
  proof (cases bs')
    case Nil
    with Cons.prems show ?thesis by (simp add: toHex_def toHexByte_def)
  next
    case (Cons b' cs)
    with Cons.prems have "toHexByte b @ toHex bs = toHexByte b' @ toHex cs"
      by (simp add: toHex_def)
    moreover have "length (toHexByte b) = length (toHexByte b')"
      by (simp add: toHexByte_def)
    ultimately have "toHexByte b = toHexByte b'" "toHex bs = toHex cs"
      by simp_all
    with Cons.IH toHexByte_inj Cons show ?thesis by blast
  qed
qed

lemma randomBytes_delivers:
  "n \<le> length src \<Longrightarrow> randomBytes n src = Inr (take n src, drop n src)"
  by (simp add: randomBytes_def)

lemma createDeskSession_failure:
  "length src < 48 \<Longrightarrow>
     status (fst (createDeskSession src now tbl)) = 500 \<and> snd (createDeskSession src now tbl) = tbl"
  by (auto simp: createDeskSession_def randomBytes_def error500_def split: sum.splits)

text \<open>
  Claim C6. A call of \<open>createDeskSession\<close> for which the random source delivers draws 16
  bytes (128 bits) for the id and 32 bytes (256 bits) for the signature, writes them as 32
  and 64 hexadecimal characters, an encoding from which the bytes can be read back,
  stores under the id a record with \<open>createdAt\<close> the clock reading and \<open>expiresAt\<close> exactly
  30 minutes later, leaves every other key of the table alone, and answers 200 with
  \<open>deskId\<close>, \<open>signature\<close> and \<open>expiresIn\<close> (the 30 minutes, in ms).
\<close>

theorem createDeskSession_spec:
  assumes "48 \<le> length src"
  shows "length (take 16 src) = 16 \<and> length (take 32 (drop 16 src)) = 32
         \<and> length (toHex (take 16 src)) = 32
         \<and> length (toHex (take 32 (drop 16 src))) = 64
         \<and> set (toHex (take 16 src)) \<subseteq> set ''0123456789abcdef''
         \<and> set (toHex (take 32 (drop 16 src))) \<subseteq> set ''0123456789abcdef''
         \<and> (\<forall>bs. toHex bs = toHex (take 16 src) \<longrightarrow> bs = take 16 src)
         \<and> (\<forall>bs. toHex bs = toHex (take 32 (drop 16 src)) \<longrightarrow> bs = take 32 (drop 16 src))
         \<and> fst (createDeskSession src now tbl) =
             \<lparr>status = 200,
              body = JObj [(''success'', JBool True),
                           (''data'', JObj [(''deskId'', JStr (toHex (take 16 src))),
                                            (''signature'', JStr (toHex (take 32 (drop 16 src)))),
                                            (''expiresIn'', JNum (30 * 60 * 1000))])]\<rparr>
         \<and> map_of (snd (createDeskSession src now tbl)) (toHex (take 16 src)) =
             Some \<lparr>deskId = toHex (take 16 src), signature = toHex (take 32 (drop 16 src)),
                   createdAt = now, expiresAt = now + 30 * 60 * 1000\<rparr>
         \<and> (\<forall>k. k \<noteq> toHex (take 16 src) \<longrightarrow>
               map_of (snd (createDeskSession src now tbl)) k = map_of tbl k)"
proof -
  have r1: "randomBytes 16 src = Inr (take 16 src, drop 16 src)"
    using assms by (simp add: randomBytes_delivers)
  have r2: "randomBytes 32 (drop 16 src) = Inr (take 32 (drop 16 src), drop 32 (drop 16 src))"
    using assms by (simp add: randomBytes_delivers)
  have len: "length (take 16 src) = 16" "length (take 32 (drop 16 src)) = 32"
    using assms by simp_all
  have hex: "set (toHex (take 16 src)) \<subseteq> set ''0123456789abcdef''"
      "set (toHex (take 32 (drop 16 src))) \<subseteq> set ''0123456789abcdef''"
    by (rule set_toHex)+
  have inj: "\<forall>bs. toHex bs = toHex (take 16 src) \<longrightarrow> bs = take 16 src"
      "\<forall>bs. toHex bs = toHex (take 32 (drop 16 src)) \<longrightarrow> bs = take 32 (drop 16 src)"
    by (blast dest: toHex_inj)+
  have res: "createDeskSession src now tbl =
      (\<lparr>status = 200,
        body = JObj [(''success'', JBool True),
                     (''data'', JObj [(''deskId'', JStr (toHex (take 16 src))),
                                      (''signature'', JStr (toHex (take 32 (drop 16 src)))),
                                      (''expiresIn'', JNum (30 * 60 * 1000))])]\<rparr>,
       AList.update (toHex (take 16 src))
         \<lparr>deskId = toHex (take 16 src), signature = toHex (take 32 (drop 16 src)),
          createdAt = now, expiresAt = now + 30 * 60 * 1000\<rparr> tbl)"
    by (simp add: createDeskSession_def r1 r2 Let_def SESSION_EXPIRY_def)
  have tab: "map_of (snd (createDeskSession src now tbl)) (toHex (take 16 src)) =
             Some \<lparr>deskId = toHex (take 16 src), signature = toHex (take 32 (drop 16 src)),
                   createdAt = now, expiresAt = now + 30 * 60 * 1000\<rparr>"
     "\<forall>k. k \<noteq> toHex (take 16 src) \<longrightarrow>
               map_of (snd (createDeskSession src now tbl)) k = map_of tbl k"
    by (simp_all add: res map_of_update_key)
  have lens: "length (toHex (take 16 src)) = 32" "length (toHex (take 32 (drop 16 src))) = 64"
    using len by (simp_all only: length_toHex)
  have r: "fst (createDeskSession src now tbl) =
             \<lparr>status = 200,
              body = JObj [(''success'', JBool True),
                           (''data'', JObj [(''deskId'', JStr (toHex (take 16 src))),
                                            (''signature'', JStr (toHex (take 32 (drop 16 src)))),
                                            (''expiresIn'', JNum (30 * 60 * 1000))])]\<rparr>"
    by (simp only: res fst_conv)
  show ?thesis
    using len lens hex inj r tab by blast
qed

lemma sample_id: "toHex (take 16 sample_source) = ''000102030405060708090a0b0c0d0e0f''"
  by code_simp

lemma sample_sig: "toHex (take 32 (drop 16 sample_source)) =
    ''101112131415161718191a1b1c1d1e1f202122232425262728292a2b2c2d2e2f''"
  by code_simp

lemma sample_len: "48 \<le> length sample_source"
  by (simp add: sample_source_def)

theorem createDeskSession_spec_witness:
  "48 \<le> length sample_source
   \<and> fst (createDeskSession sample_source 1000 []) =
             \<lparr>status = 200,
              body = JObj [(''success'', JBool True),
                           (''data'', JObj [(''deskId'', JStr ''000102030405060708090a0b0c0d0e0f''),
                                            (''signature'', JStr ''101112131415161718191a1b1c1d1e1f202122232425262728292a2b2c2d2e2f''),
                                            (''expiresIn'', JNum 1800000)])]\<rparr>
   \<and> map_of (snd (createDeskSession sample_source 1000 [])) ''000102030405060708090a0b0c0d0e0f'' =
             Some \<lparr>deskId = ''000102030405060708090a0b0c0d0e0f'',
                   signature = ''101112131415161718191a1b1c1d1e1f202122232425262728292a2b2c2d2e2f'',
                   createdAt = 1000, expiresAt = 1801000\<rparr>"
proof -
  note t = createDeskSession_spec [OF sample_len, of 1000 "[]", unfolded sample_id sample_sig]
  from t have "fst (createDeskSession sample_source 1000 []) =
             \<lparr>status = 200,
              body = JObj [(''success'', JBool True),
                           (''data'', JObj [(''deskId'', JStr ''000102030405060708090a0b0c0d0e0f''),
                                            (''signature'', JStr ''101112131415161718191a1b1c1d1e1f202122232425262728292a2b2c2d2e2f''),
                                            (''expiresIn'', JNum (30 * 60 * 1000))])]\<rparr>"
    by blast
  moreover from t have "map_of (snd (createDeskSession sample_source 1000 [])) ''000102030405060708090a0b0c0d0e0f'' =
             Some \<lparr>deskId = ''000102030405060708090a0b0c0d0e0f'',
                   signature = ''101112131415161718191a1b1c1d1e1f202122232425262728292a2b2c2d2e2f'',
                   createdAt = 1000, expiresAt = 1000 + 30 * 60 * 1000\<rparr>"
    by blast
  ultimately show ?thesis
    using sample_len by simp
qed

text \<open>Every operation of the registry keeps the table at one entry per key.\<close>

lemma registry_keeps_keys_distinct:
  assumes "distinct (map fst tbl)"
  shows "distinct (map fst (snd (createDeskSession src now tbl)))"
    and "distinct (map fst (snd (validateDeskSession now d sg tbl)))"
    and "distinct (map fst (snd (refreshDeskSession now now2 d sg tbl)))"
  using assms
  by (auto simp: createDeskSession_def validateDeskSession_def refresh_cases Let_def
        distinct_update distinct_delete split: sum.splits option.splits)

section \<open>The handshake\<close>

lemma awaiting_ack_absorbs:
  "\<forall>m \<in> set msgs. is_scan m \<or> m = DeskDisconnect \<Longrightarrow>
     fst (relay_run other AwaitingAck msgs) = AwaitingAck
     \<and> filter is_scan_received (snd (relay_run other AwaitingAck msgs)) = []"
proof (induction msgs)
  case Nil
  then show ?case by simp
next
  case (Cons m msgs)
  then show ?case
    by (cases m) (auto split: prod.splits)
qed

lemma awaiting_ack_silent:
  "\<forall>m \<in> set msgs. is_scan m \<Longrightarrow> relay_run other AwaitingAck msgs = (AwaitingAck, [])"
proof (induction msgs)
  case Nil
  then show ?case by simp
next
  case (Cons m msgs)
  then show ?case
    by (cases m) auto
qed

lemma idle_forwards_at_most_one:
  "\<forall>m \<in> set msgs. is_scan m \<or> m = DeskDisconnect \<Longrightarrow>
     length (filter is_scan_received (snd (relay_run other Idle msgs))) \<le> 1"
proof (induction msgs)
  case Nil
  then show ?case by simp
next
  case (Cons m msgs)
  then have rest: "\<forall>m \<in> set msgs. is_scan m \<or> m = DeskDisconnect"
    by simp
  show ?case
  proof (cases m)
    case (ScanParticipant conn pid)
    show ?thesis
    proof (cases "valid_pid pid")
      case None
      with ScanParticipant Cons.IH [OF rest] show ?thesis
        by (auto split: prod.splits)
    next
      case (Some p)
      with ScanParticipant awaiting_ack_absorbs [OF rest, of other] show ?thesis
        by (auto split: prod.splits)
    qed
  next
    case DeskDisconnect
    with Cons.IH [OF rest] show ?thesis
      by (auto split: prod.splits)
  qed (use Cons.prems in auto)
qed

text \<open>
  Claim C2. In the state awaiting-ack a \<open>scan-participant\<close> message, from any scanner
  connection and with any payload, is dropped: nothing is sent and the state stays
  awaiting-ack. So any number of scans arriving before \<open>ack-scan\<close>, also with desk
  disconnects among them, forward no \<open>scan-received\<close> to the desk and leave the state
  unchanged; and from idle, scans alone never get more than one \<open>scan-received\<close>
  forwarded, so at most one scan is in flight.
\<close>

theorem awaiting_ack_drops_scans:
  "handshake other AwaitingAck (ScanParticipant conn pid) = (AwaitingAck, [])
   \<and> ((\<forall>m \<in> set msgs. is_scan m) \<longrightarrow> relay_run other AwaitingAck msgs = (AwaitingAck, []))
   \<and> ((\<forall>m \<in> set msgs. is_scan m \<or> m = DeskDisconnect) \<longrightarrow>
         fst (relay_run other AwaitingAck msgs) = AwaitingAck
         \<and> filter is_scan_received (snd (relay_run other AwaitingAck msgs)) = []
         \<and> length (filter is_scan_received (snd (relay_run other Idle msgs))) \<le> 1)"
  using awaiting_ack_silent [of msgs other] awaiting_ack_absorbs [of msgs other]
    idle_forwards_at_most_one [of msgs other]
  by simp

theorem awaiting_ack_drops_scans_witness:
  "relay_run ignore_other AwaitingAck
      [ScanParticipant 1 (JStr ''P1''), ScanParticipant 2 (JStr ''P2''), ScanParticipant 1 (JStr ''P1'')]
     = (AwaitingAck, [])
   \<and> fst (relay_run eager_other AwaitingAck
      [ScanParticipant 1 (JStr ''P1''), DeskDisconnect, ScanParticipant 2 (JStr ''P2'')])
     = AwaitingAck
   \<and> filter is_scan_received (snd (relay_run eager_other AwaitingAck
      [ScanParticipant 1 (JStr ''P1''), DeskDisconnect, ScanParticipant 2 (JStr ''P2'')]))
     = []
   \<and> length (filter is_scan_received (snd (relay_run eager_other Idle
      [ScanParticipant 1 (JStr ''P1''), DeskDisconnect, ScanParticipant 2 (JStr ''P2'')])))
     \<le> 1
   \<and> relay_run eager_other Idle
      [ScanParticipant 1 (JStr ''P1''), DeskDisconnect, ScanParticipant 2 (JStr ''P2'')]
     = (AwaitingAck, [ScanReceived ''P1'', DeskDisconnected])"
proof -
  have scans: "\<forall>m \<in> set [ScanParticipant 1 (JStr ''P1''), ScanParticipant 2 (JStr ''P2''),
      ScanParticipant 1 (JStr ''P1'')]. is_scan m"
    by simp
  have mixed: "\<forall>m \<in> set [ScanParticipant 1 (JStr ''P1''), DeskDisconnect,
      ScanParticipant 2 (JStr ''P2'')]. is_scan m \<or> m = DeskDisconnect"
    by simp
  from awaiting_ack_drops_scans
    [of ignore_other 0 JNull
        "[ScanParticipant 1 (JStr ''P1''), ScanParticipant 2 (JStr ''P2''), ScanParticipant 1 (JStr ''P1'')]"]
    scans
  have 1: "relay_run ignore_other AwaitingAck
      [ScanParticipant 1 (JStr ''P1''), ScanParticipant 2 (JStr ''P2''), ScanParticipant 1 (JStr ''P1'')]
     = (AwaitingAck, [])"
    by blast
  from awaiting_ack_drops_scans
    [of eager_other 0 JNull
        "[ScanParticipant 1 (JStr ''P1''), DeskDisconnect, ScanParticipant 2 (JStr ''P2'')]"]
    mixed
  have 2: "fst (relay_run eager_other AwaitingAck
      [ScanParticipant 1 (JStr ''P1''), DeskDisconnect, ScanParticipant 2 (JStr ''P2'')])
     = AwaitingAck
   \<and> filter is_scan_received (snd (relay_run eager_other AwaitingAck
      [ScanParticipant 1 (JStr ''P1''), DeskDisconnect, ScanParticipant 2 (JStr ''P2'')]))
     = []
   \<and> length (filter is_scan_received (snd (relay_run eager_other Idle
      [ScanParticipant 1 (JStr ''P1''), DeskDisconnect, ScanParticipant 2 (JStr ''P2'')])))
     \<le> 1"
    by blast
  have 3: "relay_run eager_other Idle
      [ScanParticipant 1 (JStr ''P1''), DeskDisconnect, ScanParticipant 2 (JStr ''P2'')]
     = (AwaitingAck, [ScanReceived ''P1'', DeskDisconnected])"
    by simp
  from 1 2 3 show ?thesis by blast
qed

text \<open>
  Claim C8. From idle, a scan with a valid id is forwarded and leads to awaiting-ack;
  \<open>ack-scan\<close> leads on to paused and \<open>resume\<close> back to idle, so \<open>ack-scan\<close> then
  \<open>resume\<close> take an awaiting-ack session to idle, where a new scan with a valid id is
  again accepted and forwarded: the cycle is idle, awaiting-ack, paused, idle.
\<close>

theorem handshake_round_trip:
  "valid_pid p = Some a \<and> valid_pid q = Some b \<longrightarrow>
     handshake other Idle (ScanParticipant c p) = (AwaitingAck, [ScanReceived a])
     \<and> handshake other AwaitingAck AckScan = (Paused, [ScanAcknowledged])
     \<and> handshake other Paused Resume = (Idle, [ResumeScanning])
     \<and> relay_run other AwaitingAck [AckScan, Resume] = (Idle, [ScanAcknowledged, ResumeScanning])
     \<and> relay_run other Idle [ScanParticipant c p, AckScan, Resume]
         = (Idle, [ScanReceived a, ScanAcknowledged, ResumeScanning])
     \<and> relay_run other Idle [ScanParticipant c p, AckScan, Resume, ScanParticipant c' q]
         = (AwaitingAck, [ScanReceived a, ScanAcknowledged, ResumeScanning, ScanReceived b])"
  by simp

theorem handshake_round_trip_witness:
  "valid_pid (JStr ''P1'') = Some ''P1'' \<and> valid_pid (JStr ''P2'') = Some ''P2''
   \<and> relay_run ignore_other AwaitingAck [AckScan, Resume]
      = (Idle, [ScanAcknowledged, ResumeScanning])
   \<and> relay_run ignore_other Idle
        [ScanParticipant 1 (JStr ''P1''), AckScan, Resume, ScanParticipant 2 (JStr ''P2'')]
      = (AwaitingAck, [ScanReceived ''P1'', ScanAcknowledged, ResumeScanning, ScanReceived ''P2''])"
proof -
  have v: "valid_pid (JStr ''P1'') = Some ''P1'' \<and> valid_pid (JStr ''P2'') = Some ''P2''"
    by simp
  from handshake_round_trip [of "JStr ''P1''" "''P1''" "JStr ''P2''" "''P2''" ignore_other 1 2] v
  show ?thesis by blast
qed

section \<open>The scanner client\<close>

lemma startScanner_frame [simp]:
  "pausedRef (startScanner s) = pausedRef s"
  "socketRef (startScanner s) = socketRef s"
  "paused (startScanner s) = paused s"
  by (simp_all add: startScanner_def split: option.splits)

lemma stopScanner_frame [simp]:
  "pausedRef (stopScanner s) = pausedRef s"
  "socketRef (stopScanner s) = socketRef s"
  "paused (stopScanner s) = paused s"
  "scannerRef (stopScanner s) = scannerRef s"
  by (simp_all add: stopScanner_def split: option.splits)

lemma start_settled_frame [simp]:
  "pausedRef (start_settled qr r s) = pausedRef s"
  "socketRef (start_settled qr r s) = socketRef s"
  by (simp_all add: start_settled_def)

lemma stop_settled_frame [simp]:
  "pausedRef (stop_settled qr r s) = pausedRef s"
  "socketRef (stop_settled qr r s) = socketRef s"
  by (simp_all add: stop_settled_def)

lemma onScanSuccess_pausedRef [simp]:
  "pausedRef (onScanSuccess P now decoded s) = pausedRef s"
  by (simp add: onScanSuccess_def Let_def split: option.splits json.splits)

lemma onScanSuccess_guarded:
  "pausedRef s \<or> \<not> connectedRef s \<or> now - lastScanTsRef s < 1500 \<Longrightarrow>
     socketRef (onScanSuccess P now decoded s) = socketRef s"
  by (auto simp: onScanSuccess_def Let_def)

lemma send_click_frame [simp]:
  "pausedRef (send_click s) = pausedRef s"
  by (simp add: send_click_def split: option.splits)








text \<open>
  The guard of \<open>startScanner\<close>: with an instance held, \<open>resume-scanning\<close> clears the
  flags and does nothing else.
\<close>

lemma resume_with_instance_held:
  "scannerRef s = Some qr \<Longrightarrow>
     on_resume_scanning s = s\<lparr>pausedRef := False, paused := False\<rparr>"
  by (simp add: on_resume_scanning_def startScanner_def)




lemma send_click_emits:
  "trim (manualInput s) \<noteq> [] \<Longrightarrow> socketRef s = Some sock \<Longrightarrow>
     socketRef (send_click s) =
       Some (sock @ [(''scan-participant'', JObj [(''uniqueId'', JStr (trim (manualInput s)))])])"
  by (simp add: send_click_def emit_def)

lemma send_click_no_socket:
  "socketRef s = None \<Longrightarrow> socketRef (send_click s) = None"
  by (simp add: send_click_def)

lemma send_click_clears:
  "trim (manualInput s) \<noteq> [] \<Longrightarrow> manualInput (send_click s) = []"
  by (simp add: send_click_def split: option.splits)

text \<open>
  Claim C10, as stated, fails: the Send button does not emit for every non-empty trimmed
  input. Opened without a \<open>deskId\<close> (or \<open>signature\<close>) the page creates no socket, and
  \<open>socketRef.current?.emit\<close> then emits nothing for the input \<open>P7\<close>.
\<close>

theorem manual_send_counterexample:
  "trim (manualInput (manual_change ''P7'' (socket_setup None None initial))) = ''P7''
   \<and> socketRef (manual_change ''P7'' (socket_setup None None initial)) = None
   \<and> socketRef (send_click (manual_change ''P7'' (socket_setup None None initial))) = None"
  by (simp add: manual_change_def socket_setup_def initial_def send_click_def trim_def is_space_def)

text \<open>
  Claim C10, amended. When a socket exists, the Send button emits \<open>scan-participant\<close> with
  the trimmed input for every input that is non-empty after trimming, whatever the paused
  flag, the connected flag and the time of the last scan are, and clears the input; with
  no socket it emits nothing, and with an input that trims to nothing it does nothing.
  The three guards stand only in \<open>onScanSuccess\<close>, where each of them alone suppresses
  the emission.
\<close>

theorem manual_send_unguarded:
  "(trim (manualInput s) \<noteq> [] \<and> socketRef s = Some sock \<longrightarrow>
      socketRef (send_click (s\<lparr>pausedRef := p, connectedRef := c, lastScanTsRef := t\<rparr>)) =
        Some (sock @ [(''scan-participant'', JObj [(''uniqueId'', JStr (trim (manualInput s)))])])
      \<and> manualInput (send_click (s\<lparr>pausedRef := p, connectedRef := c, lastScanTsRef := t\<rparr>)) = [])
   \<and> (socketRef s = None \<longrightarrow> socketRef (send_click s) = None)
   \<and> (trim (manualInput s) = [] \<longrightarrow> send_click s = s)
   \<and> (pausedRef s \<or> \<not> connectedRef s \<or> now - lastScanTsRef s < 1500 \<longrightarrow>
        socketRef (onScanSuccess P now decoded s) = socketRef s)"
  by (simp add: send_click_emits send_click_no_socket send_click_clears onScanSuccess_guarded)
     (simp add: send_click_def)

theorem manual_send_unguarded_witness:
  "trim (manualInput live_scanner) = ''P7''
   \<and> socketRef (send_click (live_scanner\<lparr>pausedRef := True, connectedRef := False, lastScanTsRef := 1000\<rparr>))
       = Some [(''scan-participant'', JObj [(''uniqueId'', JStr ''P7'')])]
   \<and> socketRef (onScanSuccess no_parse 1001 ''P7''
                   (live_scanner\<lparr>pausedRef := True, connectedRef := False, lastScanTsRef := 1000\<rparr>))
       = Some []"
proof -
  have tr: "trim (manualInput live_scanner) = ''P7''"
    by (simp add: live_scanner_def trim_def is_space_def)
  have so: "socketRef live_scanner = Some []"
    by (simp add: live_scanner_def)
  from manual_send_unguarded
         [where s = live_scanner and sock = "[]" and p = True and c = False and t = 1000] tr so
  have 1: "socketRef (send_click (live_scanner\<lparr>pausedRef := True, connectedRef := False, lastScanTsRef := 1000\<rparr>))
       = Some [(''scan-participant'', JObj [(''uniqueId'', JStr ''P7'')])]"
    by simp
  from manual_send_unguarded
         [where s = "live_scanner\<lparr>pausedRef := True, connectedRef := False, lastScanTsRef := 1000\<rparr>"
            and now = 1001 and P = no_parse and decoded = "''P7''"] so
  have 2: "socketRef (onScanSuccess no_parse 1001 ''P7''
                   (live_scanner\<lparr>pausedRef := True, connectedRef := False, lastScanTsRef := 1000\<rparr>))
       = Some []"
    by simp
  from tr 1 2 show ?thesis by blast
qed

end
